theory Spec2Isabelle
  imports Complex_Main "HOL-Library.Sublist" "HOL-Library.Multiset"
begin

section \<open>JavaScript strings\<close>

text \<open>
  A JavaScript string is modelled as a \<^typ>\<open>string\<close> whose characters are ASCII:
  \<open>toLowerCase\<close> maps \<open>A\<close>..\<open>Z\<close> to \<open>a\<close>..\<open>z\<close> and leaves every other character alone, and
  the white space of \<open>trim\<close> and of the regular expression class \<open>\s\<close> is space, tab, line
  feed, vertical tab, form feed and carriage return.
\<close>

definition toLowerCase_char :: "char \<Rightarrow> char" where
  "toLowerCase_char c =
     (let n = (of_char c :: nat) in if 65 \<le> n \<and> n \<le> 90 then char_of (n + 32) else c)"

definition toLowerCase :: "string \<Rightarrow> string" where
  "toLowerCase s = map toLowerCase_char s"

definition is_space :: "char \<Rightarrow> bool" where
  "is_space c = (let n = (of_char c :: nat) in n = 32 \<or> (9 \<le> n \<and> n \<le> 13))"

text \<open>\<open>s.trim()\<close>: white space is removed at both ends.\<close>

definition trim :: "string \<Rightarrow> string" where
  "trim s = rev (dropWhile is_space (rev (dropWhile is_space s)))"

text \<open>
  \<open>s.split(",")\<close>: the pieces between the separators, so that a string without a separator
  (also the empty one) gives one piece and \<open>n\<close> separators give \<open>n + 1\<close> pieces.
\<close>

fun split_str :: "char \<Rightarrow> string \<Rightarrow> string list" where
  "split_str c [] = [[]]"
| "split_str c (x # xs) =
     (if x = c then [] # split_str c xs
      else (x # hd (split_str c xs)) # tl (split_str c xs))"

text \<open>\<open>s.startsWith(p)\<close> and \<open>s.includes(p)\<close>: \<open>p\<close> occurs in \<open>s\<close> as a contiguous piece.\<close>

fun startsWith :: "string \<Rightarrow> string \<Rightarrow> bool" where
  "startsWith s [] = True"
| "startsWith [] (p # ps) = False"
| "startsWith (x # xs) (p # ps) = (x = p \<and> startsWith xs ps)"

fun str_includes :: "string \<Rightarrow> string \<Rightarrow> bool" where
  "str_includes [] p = (p = [])"
| "str_includes (x # xs) p = (startsWith (x # xs) p \<or> str_includes xs p)"

text \<open>\<open>xs.includes(x)\<close> on an array of strings.\<close>

definition arr_includes :: "string list \<Rightarrow> string \<Rightarrow> bool" where
  "arr_includes xs x = (x \<in> set xs)"

section \<open>The page: normalisation and the analysis\<close>

text \<open>
  \<open>normalize\<close> of \<open>page.tsx\<close>: \<open>str.trim().toLowerCase().replace(/[\.\-\s]/g, "")\<close>.
\<close>

definition normalize_str :: "string \<Rightarrow> string" where
  "normalize_str str =
     filter (\<lambda>c. \<not> (c = CHR ''.'' \<or> c = CHR ''-'' \<or> is_space c)) (toLowerCase (trim str))"

record AnalysisResult =
  requiredSkills :: "string list"
  missingSkills :: "string list"
  technicalSkills :: "string list"
  softSkills :: "string list"

definition technicalKeywords :: "string list" where
  "technicalKeywords =
     [''html'', ''css'', ''javascript'', ''typescript'', ''react'', ''angular'', ''vue'', ''svelte'',
      ''node'', ''express'', ''api'', ''sql'', ''postgres'', ''mysql'', ''mongodb'', ''redis'',
      ''docker'', ''kubernetes'', ''aws'', ''gcp'', ''azure'', ''git'', ''webpack'', ''vite'',
      ''next'', ''nestjs'']"

text \<open>
  The test of the first \<open>forEach\<close> of \<open>handleAnalyze\<close>:
  \<open>userSkillsArray.some((userSkill) => userSkill.includes(normSkill) || normSkill.includes(userSkill))\<close>.
\<close>

definition isMatched :: "string list \<Rightarrow> string \<Rightarrow> bool" where
  "isMatched userSkillsArray skill =
     (let normSkill = normalize_str skill
      in list_ex (\<lambda>userSkill. str_includes userSkill normSkill \<or> str_includes normSkill userSkill)
           userSkillsArray)"

text \<open>
  The first \<open>forEach\<close>: each skill is pushed onto \<open>matchedSkills\<close> or onto \<open>missingSkills\<close>.
  The pair is (matched, missing).
\<close>

fun match_loop :: "string list \<Rightarrow> string list \<Rightarrow> string list \<times> string list \<Rightarrow> string list \<times> string list" where
  "match_loop userSkillsArray [] acc = acc"
| "match_loop userSkillsArray (skill # rest) (matched, missing) =
     (if isMatched userSkillsArray skill
      then match_loop userSkillsArray rest (matched @ [skill], missing)
      else match_loop userSkillsArray rest (matched, missing @ [skill]))"

definition isTechnical :: "string \<Rightarrow> bool" where
  "isTechnical skill =
     (let lower = toLowerCase skill in list_ex (\<lambda>kw. str_includes lower kw) technicalKeywords)"

text \<open>The second \<open>forEach\<close>; the pair is (technical, soft).\<close>

fun classify_loop :: "string list \<Rightarrow> string list \<times> string list \<Rightarrow> string list \<times> string list" where
  "classify_loop [] acc = acc"
| "classify_loop (skill # rest) (technical, soft) =
     (if isTechnical skill
      then classify_loop rest (technical @ [skill], soft)
      else classify_loop rest (technical, soft @ [skill]))"

text \<open>
  The body of the branch of \<open>handleAnalyze\<close> taken on a well-formed reply: from the reply's
  \<open>requiredSkills\<close> and the text of the skills field to the value given to \<open>setAnalysis\<close>.
  The reply's own \<open>missingSkills\<close> is not read.
\<close>

definition analyse :: "string list \<Rightarrow> string \<Rightarrow> AnalysisResult" where
  "analyse required userSkillsText =
     (let userSkillsArray = map normalize_str (split_str CHR '','' userSkillsText);
          (matched, missing) = match_loop userSkillsArray required ([], []);
          (technical, soft) = classify_loop required ([], [])
      in \<lparr>requiredSkills = required, missingSkills = missing,
          technicalSkills = technical, softSkills = soft\<rparr>)"

section \<open>The page state and \<open>handleAnalyze\<close>\<close>

text \<open>The \<open>useState\<close> cells of \<open>AnalyzePage\<close>.\<close>

record page_state =
  jobDescription :: string
  userSkills :: string
  analysis :: "AnalysisResult option"
  loading :: bool
  error :: "string option"
  toast :: "string option"

text \<open>
  What \<open>await axios.post("/api/jobs", ...)\<close> gives: the call throws (network failure or a
  status outside 2xx), or it returns \<open>res\<close>, whose \<open>data\<close> either has two arrays
  \<open>requiredSkills\<close> and \<open>missingSkills\<close> or has not. The arrays hold strings, as the
  gateway sends them.
\<close>

datatype res_data = WellFormed "string list" "string list" | UnexpectedFormat

datatype post_outcome = Threw | Returned res_data

definition handleAnalyze :: "page_state \<Rightarrow> post_outcome \<Rightarrow> page_state" where
  "handleAnalyze st outcome =
     (if jobDescription st = [] \<or> userSkills st = []
      then st\<lparr>error := Some ''Please fill in both fields before analyzing.''\<rparr>
      else
        let st1 = st\<lparr>error := None, loading := True, analysis := None\<rparr>;
            st2 = (case outcome of
                     Returned (WellFormed required missing) \<Rightarrow>
                       st1\<lparr>analysis := Some (analyse required (userSkills st))\<rparr>
                   | Returned UnexpectedFormat \<Rightarrow>
                       st1\<lparr>error := Some ''API returned an unexpected data format.''\<rparr>
                   | Threw \<Rightarrow>
                       st1\<lparr>error := Some ''Analysis failed. Check server console/network tab.''\<rparr>)
        in st2\<lparr>loading := False\<rparr>)"

section \<open>The computed values\<close>

text \<open>
  JavaScript numbers are modelled as exact rationals, and \<open>Math.round\<close> as rounding to the
  nearest integer with ties going up.
\<close>

definition Math_round :: "rat \<Rightarrow> int" where
  "Math_round x = \<lfloor>x + 1 / 2\<rfloor>"

definition matchedSkills :: "page_state \<Rightarrow> string list" where
  "matchedSkills st =
     (case analysis st of
        None \<Rightarrow> []
      | Some a \<Rightarrow> filter (\<lambda>skill. \<not> arr_includes (missingSkills a) skill) (requiredSkills a))"

definition matchPercentage :: "page_state \<Rightarrow> int" where
  "matchPercentage st =
     (case analysis st of
        None \<Rightarrow> 0
      | Some a \<Rightarrow>
          if length (requiredSkills a) = 0 then 0
          else Math_round
                 (of_nat (length (matchedSkills st)) / of_nat (length (requiredSkills a)) * 100))"

definition technicalMatchPercentage :: "page_state \<Rightarrow> int" where
  "technicalMatchPercentage st =
     (case analysis st of
        None \<Rightarrow> 0
      | Some a \<Rightarrow>
          if length (technicalSkills a) = 0 then 0
          else
            let matchedTech = length (filter (\<lambda>s. arr_includes (technicalSkills a) s) (matchedSkills st))
            in Math_round (of_nat matchedTech / of_nat (length (technicalSkills a)) * 100))"

definition softMatchPercentage :: "page_state \<Rightarrow> int" where
  "softMatchPercentage st =
     (case analysis st of
        None \<Rightarrow> 0
      | Some a \<Rightarrow>
          if length (softSkills a) = 0 then 0
          else
            let matchedSoft = length (filter (\<lambda>s. arr_includes (softSkills a) s) (matchedSkills st))
            in Math_round (of_nat matchedSoft / of_nat (length (softSkills a)) * 100))"

text \<open>
  The arithmetic of \<open>readinessScore\<close> on its three inputs:
  \<open>Math.max(0, Math.min(100, Math.round(m * 0.6 + t * 0.3 + s * 0.1)))\<close>.
\<close>

definition readiness_of :: "int \<Rightarrow> int \<Rightarrow> int \<Rightarrow> int" where
  "readiness_of m t s =
     (let score = Math_round (of_int m * 0.6 + of_int t * 0.3 + of_int s * 0.1)
      in max 0 (min 100 score))"

definition readinessScore :: "page_state \<Rightarrow> int" where
  "readinessScore st =
     (case analysis st of
        None \<Rightarrow> 0
      | Some a \<Rightarrow>
          readiness_of (matchPercentage st) (technicalMatchPercentage st) (softMatchPercentage st))"

section \<open>The ranking of the missing skills\<close>

definition importanceWords :: "string list" where
  "importanceWords =
     [''must'', ''required'', ''need'', ''essential'', ''strong'', ''experience'', ''proficiency'',
      ''proven'']"

text \<open>
  \<open>(lowerJD.match(new RegExp(escaped, "g")) || []).length\<close>, where \<open>escaped\<close> is the pattern
  with every character that is special in a regular expression escaped: the pattern is
  matched literally, from left to right, each search starting where the match before it
  ended. The second argument counts the characters still covered by the last match. The
  empty pattern matches once at every position, the end included.
\<close>

fun count_matches :: "string \<Rightarrow> nat \<Rightarrow> string \<Rightarrow> nat" where
  "count_matches p skip [] = (if p = [] then 1 else 0)"
| "count_matches p skip (x # xs) =
     (if skip > 0 then count_matches p (skip - 1) xs
      else if startsWith (x # xs) p then 1 + count_matches p (length p - 1) xs
      else count_matches p 0 xs)"

text \<open>The body of the \<open>forEach\<close> of \<open>topSuggested\<close>: the score of one missing skill.\<close>

definition skill_score :: "string \<Rightarrow> string \<Rightarrow> int" where
  "skill_score jd skill =
     (let lowerJD = toLowerCase jd;
          skillLower = toLowerCase skill;
          score = foldl (\<lambda>score word.
                     if str_includes lowerJD (word @ '' '' @ skillLower)
                        \<or> str_includes lowerJD (word @ '' with '' @ skillLower)
                     then score + 5 else score) 0 importanceWords;
          occurrences = count_matches skillLower 0 lowerJD
      in score + int occurrences * 2)"

record ranked_entry =
  skill :: string
  score :: int

text \<open>
  \<open>ranked.sort((a, b) => b.score - a.score)\<close>: \<open>Array.prototype.sort\<close> is stable, so the
  result is the one ordering by falling score that keeps entries of equal score in their
  order; \<^const>\<open>sort_key\<close> on the negated score computes it.
\<close>

definition topSuggested :: "page_state \<Rightarrow> string list" where
  "topSuggested st =
     (case analysis st of
        None \<Rightarrow> []
      | Some a \<Rightarrow>
          let ranked = map (\<lambda>s. \<lparr>skill = s, score = skill_score (jobDescription st) s\<rparr>)
                         (missingSkills a);
              sorted = sort_key (\<lambda>r. - score r) ranked;
              top = map skill (take 5 sorted)
          in if length top < 5
             then top @ take (5 - length top)
                          (filter (\<lambda>s. \<not> arr_includes top s) (missingSkills a))
             else top)"

section \<open>The roadmap\<close>

text \<open>
  The six fixed lines of \<open>learningRoadmap\<close>, in the order of the source: the lines numbered
  1 to 5 (fundamentals, framework, backend, tools, soft skills) and the line pushed when
  none of them was.
\<close>

datatype roadmap_line =
  Line_Fundamentals | Line_Framework | Line_Backend | Line_Tools | Line_Soft | Line_Fallback

definition includes_any :: "string list \<Rightarrow> string list \<Rightarrow> bool" where
  "includes_any strs kws = list_ex (\<lambda>s. list_ex (\<lambda>kw. str_includes s kw) kws) strs"

definition learningRoadmap :: "page_state \<Rightarrow> roadmap_line list" where
  "learningRoadmap st =
     (case analysis st of
        None \<Rightarrow> []
      | Some a \<Rightarrow>
          let lowerMissing = map toLowerCase (missingSkills a);
              hasHTMLorCSSorJS =
                includes_any lowerMissing [''html'', ''css'', ''javascript'', ''typescript''];
              hasFramework =
                includes_any lowerMissing [''react'', ''angular'', ''vue'', ''next'', ''svelte''];
              hasBackend =
                includes_any lowerMissing [''node'', ''express'', ''api'', ''sql'', ''mongodb''];
              hasTools = includes_any lowerMissing [''git'', ''docker'', ''aws'', ''azure''];
              hasSoft =
                includes_any (map toLowerCase (missingSkills a))
                  [''communication'', ''team'', ''collaboration''];
              roadmap =
                (if hasHTMLorCSSorJS then [Line_Fundamentals] else [])
                @ (if hasFramework then [Line_Framework] else [])
                @ (if hasBackend then [Line_Backend] else [])
                @ (if hasTools then [Line_Tools] else [])
                @ (if hasSoft then [Line_Soft] else [])
          in if length roadmap = 0 then roadmap @ [Line_Fallback] else roadmap)"

section \<open>The gateway: \<open>POST\<close> of \<open>api/jobs/route.ts\<close>\<close>

text \<open>A value read from a JSON text.\<close>

datatype json =
  JNull | JBool bool | JNum rat | JStr string | JArr "json list" | JObj "(string \<times> json) list"

text \<open>
  \<open>await req.json()\<close>: the promise is rejected when the body is not a JSON text, and gives
  the value read otherwise.
\<close>

datatype request_body = NotJson | Parsed json

datatype exn = SyntaxError | TypeError | ModelError

text \<open>
  The property \<open>k\<close> of a value read from JSON, \<open>None\<close> for \<open>undefined\<close>: only an object has
  properties of these names, and of a key written twice the last one counts.
\<close>

fun get_property :: "json \<Rightarrow> string \<Rightarrow> json option" where
  "get_property (JObj kvs) k = map_of (rev kvs) k"
| "get_property v k = None"

text \<open>
  \<open>const { jobDescription, userSkills } = await req.json()\<close>: destructuring \<open>null\<close> throws.
\<close>

definition read_body :: "request_body \<Rightarrow> exn + (json option \<times> json option)" where
  "read_body body =
     (case body of
        NotJson \<Rightarrow> Inl SyntaxError
      | Parsed JNull \<Rightarrow> Inl TypeError
      | Parsed v \<Rightarrow> Inr (get_property v ''jobDescription'', get_property v ''userSkills''))"

text \<open>
  The call of the model inside the \<open>try\<close>: it throws, or gives a response whose \<open>text\<close> is a
  string or \<open>undefined\<close>.
\<close>

datatype model_outcome = ModelThrows | ModelText "string option"

text \<open>
  \<open>userSkills.includes(skill)\<close> on what the body held: membership on an array, containment
  on a string, and a \<open>TypeError\<close> on anything else (\<open>undefined\<close> included), which has no
  such method.
\<close>

fun userSkills_includes :: "json option \<Rightarrow> string \<Rightarrow> exn + bool" where
  "userSkills_includes (Some (JArr xs)) s = Inr (JStr s \<in> set xs)"
| "userSkills_includes (Some (JStr t)) s = Inr (str_includes t s)"
| "userSkills_includes v s = Inl TypeError"

text \<open>\<open>xs.filter(f)\<close> with a callback that may throw: the first throw ends the loop.\<close>

fun filter_throwing :: "('a \<Rightarrow> exn + bool) \<Rightarrow> 'a list \<Rightarrow> exn + 'a list" where
  "filter_throwing f [] = Inr []"
| "filter_throwing f (x # xs) =
     (case f x of
        Inl e \<Rightarrow> Inl e
      | Inr b \<Rightarrow>
          (case filter_throwing f xs of
             Inl e \<Rightarrow> Inl e
           | Inr ys \<Rightarrow> Inr (if b then x # ys else ys)))"

definition extract_skills :: "string \<Rightarrow> string list" where
  "extract_skills resultText = filter (\<lambda>s. s \<noteq> []) (map trim (split_str CHR '','' resultText))"

text \<open>An entry of \<open>jobAnalysisStore\<close>.\<close>

record job_analysis =
  ja_jobTitle :: string
  ja_description :: "json option"
  ja_requiredSkills :: "string list"
  ja_missingSkills :: "string list"

datatype http_response =
  Ok_json "string list" "string list"  \<comment> \<open>\<open>{requiredSkills, missingSkills}\<close>, status 200\<close>
| Error_json string nat  \<comment> \<open>\<open>{error}\<close> with a status\<close>

text \<open>
  \<open>POST\<close>, from the store, the body of the request and what the model does, to what the
  handler gives (\<open>Inl\<close>: it throws; \<open>Inr\<close>: it returns a response) and the store afterwards.
  Reading the body comes before the \<open>try\<close>; every exception inside the \<open>try\<close> goes to the
  \<open>catch\<close>.
\<close>

definition POST :: "job_analysis list \<Rightarrow> request_body \<Rightarrow> model_outcome
    \<Rightarrow> (exn + http_response) \<times> job_analysis list" where
  "POST jobAnalysisStore body model =
     (case read_body body of
        Inl e \<Rightarrow> (Inl e, jobAnalysisStore)
      | Inr (jobDescription', userSkills') \<Rightarrow>
          (case model of
             ModelThrows \<Rightarrow> (Inr (Error_json ''Failed to analyze job'' 500), jobAnalysisStore)
           | ModelText text \<Rightarrow>
               let resultText = (case text of None \<Rightarrow> [] | Some t \<Rightarrow> t);
                   extractedSkills = extract_skills resultText
               in (case filter_throwing
                          (\<lambda>s. map_sum id Not (userSkills_includes userSkills' s))
                          extractedSkills of
                     Inl e \<Rightarrow> (Inr (Error_json ''Failed to analyze job'' 500), jobAnalysisStore)
                   | Inr missingSkills' \<Rightarrow>
                       let jobAnalysis = \<lparr>ja_jobTitle = ''Unknown'', ja_description = jobDescription',
                                           ja_requiredSkills = extractedSkills,
                                           ja_missingSkills = missingSkills'\<rparr>
                       in (Inr (Ok_json (ja_requiredSkills jobAnalysis) (ja_missingSkills jobAnalysis)),
                           jobAnalysisStore @ [jobAnalysis]))))"

section \<open>A page used in the examples\<close>

definition example_page :: page_state where
  "example_page =
     \<lparr>jobDescription = ''React developer'', userSkills = ''react'', analysis = None,
      loading = False, error = None, toast = None\<rparr>"

section \<open>The score in the words of the specification\<close>

text \<open>
  The specification words the score of a missing skill as 5 points for each occurrence of
  an importance phrase in the lower-cased job description, plus 2 points for each match of
  the skill. This is that reading, to be compared with \<open>skill_score\<close>:
  \<open>count_positions s p\<close> is the number of positions of \<open>s\<close> at which \<open>p\<close> occurs.
\<close>

fun count_positions :: "string \<Rightarrow> string \<Rightarrow> nat" where
  "count_positions [] p = (if p = [] then 1 else 0)"
| "count_positions (x # xs) p = (if startsWith (x # xs) p then 1 else 0) + count_positions xs p"

definition spec_skill_score :: "string \<Rightarrow> string \<Rightarrow> int" where
  "spec_skill_score jd s =
     (let lowerJD = toLowerCase jd;
          skillLower = toLowerCase s
      in 5 * int (sum_list (map (\<lambda>word. count_positions lowerJD (word @ '' '' @ skillLower)
                                   + count_positions lowerJD (word @ '' with '' @ skillLower))
                        importanceWords))
         + 2 * int (count_matches skillLower 0 lowerJD))"

section \<open>The loops as filters\<close>

lemma match_loop_filter:
  "match_loop usa xs (matched, missing) =
     (matched @ filter (isMatched usa) xs, missing @ filter (\<lambda>s. \<not> isMatched usa s) xs)"
  by (induction xs arbitrary: matched missing) simp_all

lemma classify_loop_filter:
  "classify_loop xs (technical, soft) =
     (technical @ filter isTechnical xs, soft @ filter (\<lambda>s. \<not> isTechnical s) xs)"
  by (induction xs arbitrary: technical soft) simp_all

lemma analyse_filter:
  "analyse required u =
     \<lparr>requiredSkills = required,
      missingSkills =
        filter (\<lambda>s. \<not> isMatched (map normalize_str (split_str CHR '','' u)) s) required,
      technicalSkills = filter isTechnical required,
      softSkills = filter (\<lambda>s. \<not> isTechnical s) required\<rparr>"
  by (simp add: analyse_def match_loop_filter classify_loop_filter)

text \<open>
  The \<open>matchedSkills\<close> computed from the stored analysis is the list that the first loop of
  \<open>handleAnalyze\<close> built and dropped.
\<close>

lemma matchedSkills_analyse:
  "matchedSkills (st\<lparr>analysis := Some (analyse required u)\<rparr>) =
     filter (isMatched (map normalize_str (split_str CHR '','' u))) required"
  by (auto simp add: matchedSkills_def analyse_filter arr_includes_def intro: filter_cong)

lemma handleAnalyze_success:
  assumes "jobDescription st \<noteq> []" and "userSkills st \<noteq> []"
  shows "handleAnalyze st (Returned (WellFormed required missing)) =
           st\<lparr>error := None, loading := False,
              analysis := Some (analyse required (userSkills st))\<rparr>"
  using assms by (simp add: handleAnalyze_def)

section \<open>Matched and missing skills\<close>

text \<open>
  Claim C4. After an analysis of \<open>required\<close> against the skills text \<open>u\<close>, the matched
  skills and the missing skills have no element in common, together they are the elements
  of \<open>required\<close>, and the matched skills are \<open>required\<close> without the missing ones; every
  occurrence is counted once. This holds for the empty list as well.
\<close>

theorem matched_missing_partition:
  "set (matchedSkills (st\<lparr>analysis := Some (analyse required u)\<rparr>))
     \<inter> set (missingSkills (analyse required u)) = {}
   \<and> set (matchedSkills (st\<lparr>analysis := Some (analyse required u)\<rparr>))
     \<union> set (missingSkills (analyse required u)) = set required
   \<and> matchedSkills (st\<lparr>analysis := Some (analyse required u)\<rparr>) =
       filter (\<lambda>s. s \<notin> set (missingSkills (analyse required u))) required
   \<and> mset (matchedSkills (st\<lparr>analysis := Some (analyse required u)\<rparr>))
       + mset (missingSkills (analyse required u)) = mset required"
proof -
  let ?P = "isMatched (map normalize_str (split_str CHR '','' u))"
  have m: "matchedSkills (st\<lparr>analysis := Some (analyse required u)\<rparr>) = filter ?P required"
    by (rule matchedSkills_analyse)
  have mi: "missingSkills (analyse required u) = filter (\<lambda>s. \<not> ?P s) required"
    by (simp add: analyse_filter)
  have f: "filter ?P required = filter (\<lambda>s. s \<notin> set (filter (\<lambda>s. \<not> ?P s) required)) required"
    by (rule filter_cong) auto
  have d: "set (filter ?P required) \<inter> set (filter (\<lambda>s. \<not> ?P s) required) = {}"
    by auto
  have un: "set (filter ?P required) \<union> set (filter (\<lambda>s. \<not> ?P s) required) = set required"
    by auto
  have ms: "mset (filter ?P required) + mset (filter (\<lambda>s. \<not> ?P s) required) = mset required"
    by simp
  show ?thesis
    unfolding m mi using f d un ms by blast
qed

section \<open>Technical and soft skills\<close>

text \<open>
  Claim C5. The technical and the soft skills of an analysis split \<open>required\<close>: counted
  with repetitions they add up to \<open>required\<close> (nothing is dropped or duplicated), no skill
  is in both, every skill of \<open>required\<close> is in one of them, and each of the two lists keeps
  the order of \<open>required\<close>.
\<close>

theorem technical_soft_partition:
  "mset (technicalSkills (analyse required u)) + mset (softSkills (analyse required u))
     = mset required
   \<and> set (technicalSkills (analyse required u)) \<inter> set (softSkills (analyse required u)) = {}
   \<and> set (technicalSkills (analyse required u)) \<union> set (softSkills (analyse required u))
     = set required
   \<and> subseq (technicalSkills (analyse required u)) required
   \<and> subseq (softSkills (analyse required u)) required
   \<and> requiredSkills (analyse required u) = required"
  by (auto simp add: analyse_filter)

section \<open>Rounding and the readiness score\<close>

text \<open>The two roundings of the page, in integer arithmetic.\<close>

lemma Math_round_tenths:
  "Math_round (of_int m * 0.6 + of_int t * 0.3 + of_int s * 0.1) = (6 * m + 3 * t + s + 5) div 10"
proof -
  have "(of_int m * 0.6 + of_int t * 0.3 + of_int s * 0.1 + 1 / 2 :: rat)
          = of_int (6 * m + 3 * t + s + 5) / of_int 10"
    by (simp add: field_simps)
  then show ?thesis
    unfolding Math_round_def by (simp only: floor_divide_of_int_eq)
qed

lemma Math_round_percent:
  assumes "0 < n"
  shows "Math_round (of_nat k / of_nat n * 100) = (200 * int k + int n) div (2 * int n)"
proof -
  have "(of_nat k / of_nat n * 100 + 1 / 2 :: rat) = of_int (200 * int k + int n) / of_int (2 * int n)"
    using assms by (simp add: field_simps)
  then show ?thesis
    unfolding Math_round_def by (simp only: floor_divide_of_int_eq)
qed

lemma readiness_of_div:
  "readiness_of m t s = max 0 (min 100 ((6 * m + 3 * t + s + 5) div 10))"
  by (simp only: readiness_of_def Let_def Math_round_tenths)


section \<open>The example of the specification\<close>

lemma example_analysis:
  "analyse [''React'', ''SQL'', ''Communication''] ''react, Python'' =
     \<lparr>requiredSkills = [''React'', ''SQL'', ''Communication''],
      missingSkills = [''SQL'', ''Communication''],
      technicalSkills = [''React'', ''SQL''],
      softSkills = [''Communication'']\<rparr>"
  by code_simp

text \<open>
  Claim C1. For the required skills React, SQL and Communication and the skills text
  \<open>react, Python\<close>, React is matched and the two others are missing, React and SQL are
  technical and Communication is soft, and the percentages are 33, 50 and 0 with readiness
  score 35.
\<close>

theorem example_react_sql_communication:
  "analyse [''React'', ''SQL'', ''Communication''] ''react, Python'' =
     \<lparr>requiredSkills = [''React'', ''SQL'', ''Communication''],
      missingSkills = [''SQL'', ''Communication''],
      technicalSkills = [''React'', ''SQL''],
      softSkills = [''Communication'']\<rparr>
   \<and> matchedSkills (st\<lparr>analysis := Some (analyse [''React'', ''SQL'', ''Communication''] ''react, Python'')\<rparr>)
       = [''React'']
   \<and> matchPercentage (st\<lparr>analysis := Some (analyse [''React'', ''SQL'', ''Communication''] ''react, Python'')\<rparr>)
       = 33
   \<and> technicalMatchPercentage (st\<lparr>analysis := Some (analyse [''React'', ''SQL'', ''Communication''] ''react, Python'')\<rparr>)
       = 50
   \<and> softMatchPercentage (st\<lparr>analysis := Some (analyse [''React'', ''SQL'', ''Communication''] ''react, Python'')\<rparr>)
       = 0
   \<and> readinessScore (st\<lparr>analysis := Some (analyse [''React'', ''SQL'', ''Communication''] ''react, Python'')\<rparr>)
       = 35
   \<and> handleAnalyze (example_page\<lparr>userSkills := ''react, Python''\<rparr>)
         (Returned (WellFormed [''React'', ''SQL'', ''Communication''] reply_missing))
       = example_page\<lparr>userSkills := ''react, Python'',
           analysis := Some (analyse [''React'', ''SQL'', ''Communication''] ''react, Python'')\<rparr>"
proof -
  let ?a = "\<lparr>requiredSkills = [''React'', ''SQL'', ''Communication''],
      missingSkills = [''SQL'', ''Communication''],
      technicalSkills = [''React'', ''SQL''],
      softSkills = [''Communication'']\<rparr>"
  let ?st = "st\<lparr>analysis := Some ?a\<rparr>"
  have m: "matchedSkills ?st = [''React'']"
    by (simp add: matchedSkills_def arr_includes_def)
  have mp: "matchPercentage ?st = 33"
    using Math_round_percent [of 3 1] by (simp add: matchPercentage_def m)
  have tp: "technicalMatchPercentage ?st = 50"
    using Math_round_percent [of 2 1]
    by (simp add: technicalMatchPercentage_def m arr_includes_def)
  have sp: "softMatchPercentage ?st = 0"
    using Math_round_percent [of 1 0]
    by (simp add: softMatchPercentage_def m arr_includes_def)
  have r: "readinessScore ?st = 35"
    by (simp add: readinessScore_def mp tp sp readiness_of_div)
  have h: "handleAnalyze (example_page\<lparr>userSkills := ''react, Python''\<rparr>)
         (Returned (WellFormed [''React'', ''SQL'', ''Communication''] reply_missing))
       = example_page\<lparr>userSkills := ''react, Python'', analysis := Some ?a\<rparr>"
    by (simp add: handleAnalyze_def example_page_def example_analysis)
  show ?thesis
    unfolding example_analysis using m mp tp sp r h by simp
qed

text \<open>
  The values rounded in the example are \<open>100 / 3\<close>, \<open>50\<close> and \<open>34.8\<close>: none is within a
  tenth of a tie, so the rounding error of floating-point arithmetic cannot change the
  result.
\<close>

lemma example_rounding_margin:
  "\<bar>x - 100 / 3\<bar> < 1 / 10 \<Longrightarrow> Math_round x = 33"
  "\<bar>y - 50\<bar> < 1 / 10 \<Longrightarrow> Math_round y = 50"
  "\<bar>z - 174 / 5\<bar> < 1 / 10 \<Longrightarrow> Math_round z = 35"
  unfolding Math_round_def by linarith+


section \<open>An empty segment in the skills text\<close>

lemma str_includes_empty: "str_includes s []"
  by (cases s) simp_all

lemma isMatched_empty_entry:
  assumes "[] \<in> set usa"
  shows "isMatched usa s"
proof -
  have "str_includes (normalize_str s) []"
    by (rule str_includes_empty)
  with assms show ?thesis
    unfolding isMatched_def Let_def list_ex_iff by blast
qed

lemma normalize_str_empty: "normalize_str [] = []"
  by (simp add: normalize_str_def trim_def toLowerCase_def)

text \<open>
  Claim C9. When one of the pieces of the skills text between commas is empty (a comma at
  the end, two commas in a row), every required skill is matched: nothing is missing and
  the matched skills are the whole list.
\<close>

theorem empty_segment_matches_all:
  assumes "[] \<in> set (split_str CHR '','' u)"
  shows "missingSkills (analyse required u) = []
         \<and> matchedSkills (st\<lparr>analysis := Some (analyse required u)\<rparr>) = required"
proof -
  have "normalize_str [] \<in> set (map normalize_str (split_str CHR '','' u))"
    using assms by (simp only: set_map) (rule imageI)
  then have e: "[] \<in> set (map normalize_str (split_str CHR '','' u))"
    by (simp only: normalize_str_empty)
  have all: "isMatched (map normalize_str (split_str CHR '','' u)) s" for s
    using e by (rule isMatched_empty_entry)
  have "missingSkills (analyse required u) = []"
    by (simp add: analyse_filter all)
  moreover have "matchedSkills (st\<lparr>analysis := Some (analyse required u)\<rparr>) = required"
    by (simp add: matchedSkills_analyse all)
  ultimately show ?thesis by simp
qed

theorem empty_segment_matches_all_witness:
  "[] \<in> set (split_str CHR '','' ''react,'')
   \<and> missingSkills (analyse [''SQL'', ''Communication''] ''react,'') = []
   \<and> matchedSkills (example_page\<lparr>analysis := Some (analyse [''SQL'', ''Communication''] ''react,'')\<rparr>)
       = [''SQL'', ''Communication'']
   \<and> missingSkills (analyse [''SQL'', ''Communication''] ''react'') = [''SQL'', ''Communication'']"
proof -
  have h: "[] \<in> set (split_str CHR '','' ''react,'')"
    by simp
  have c: "missingSkills (analyse [''SQL'', ''Communication''] ''react'') = [''SQL'', ''Communication'']"
    by code_simp
  show ?thesis
    using h c empty_segment_matches_all [OF h, of "[''SQL'', ''Communication'']" example_page]
    by simp
qed

section \<open>Failed requests\<close>

text \<open>
  Claim C3 as stated fails: after a first analysis has succeeded, a request that throws
  leaves no analysis on the page.
\<close>

theorem failure_after_success_counterexample:
  "analysis (handleAnalyze example_page (Returned (WellFormed [''React''] []))) =
     Some \<lparr>requiredSkills = [''React''], missingSkills = [], technicalSkills = [''React''],
           softSkills = []\<rparr>
   \<and> analysis (handleAnalyze (handleAnalyze example_page (Returned (WellFormed [''React''] []))) Threw)
       = None"
proof -
  have a: "analyse [''React''] ''react'' =
     \<lparr>requiredSkills = [''React''], missingSkills = [], technicalSkills = [''React''],
           softSkills = []\<rparr>"
    by code_simp
  show ?thesis
    by (simp add: handleAnalyze_def example_page_def a)
qed

text \<open>
  Claim C3, amended. Once both fields are filled in, a request that fails (the call throws,
  or the reply has an unexpected format) leaves the page without an analysis, with the
  error message of the failure and not loading, whatever analysis was there before. The
  analysis on the page is kept only when a field is empty, where \<open>handleAnalyze\<close> sets the
  validation message and sends nothing.
\<close>

theorem failed_request_clears_analysis:
  "(jobDescription st \<noteq> [] \<and> userSkills st \<noteq> [] \<longrightarrow>
      handleAnalyze st Threw =
        st\<lparr>error := Some ''Analysis failed. Check server console/network tab.'',
           loading := False, analysis := None\<rparr>
      \<and> handleAnalyze st (Returned UnexpectedFormat) =
        st\<lparr>error := Some ''API returned an unexpected data format.'',
           loading := False, analysis := None\<rparr>)
   \<and> (jobDescription st = [] \<or> userSkills st = [] \<longrightarrow>
      handleAnalyze st outcome =
        st\<lparr>error := Some ''Please fill in both fields before analyzing.''\<rparr>
      \<and> analysis (handleAnalyze st outcome) = analysis st)"
  by (simp add: handleAnalyze_def)


theorem failed_request_clears_analysis_witness:
  "jobDescription (handleAnalyze example_page (Returned (WellFormed [''React''] []))) \<noteq> []
   \<and> userSkills (handleAnalyze example_page (Returned (WellFormed [''React''] []))) \<noteq> []
   \<and> analysis (handleAnalyze example_page (Returned (WellFormed [''React''] []))) \<noteq> None
   \<and> analysis (handleAnalyze (handleAnalyze example_page (Returned (WellFormed [''React''] [])))
         Threw) = None
   \<and> analysis (handleAnalyze (handleAnalyze example_page (Returned (WellFormed [''React''] [])))
         (Returned UnexpectedFormat)) = None
   \<and> userSkills ((handleAnalyze example_page (Returned (WellFormed [''React''] [])))
         \<lparr>userSkills := []\<rparr>) = []
   \<and> analysis (handleAnalyze
         ((handleAnalyze example_page (Returned (WellFormed [''React''] [])))\<lparr>userSkills := []\<rparr>)
         Threw)
       = analysis (handleAnalyze example_page (Returned (WellFormed [''React''] [])))"
proof -
  let ?p = "handleAnalyze example_page (Returned (WellFormed [''React''] []))"
  have p: "?p = example_page\<lparr>error := None, loading := False,
              analysis := Some (analyse [''React''] (userSkills example_page))\<rparr>"
    by (rule handleAnalyze_success) (simp_all add: example_page_def)
  have h1: "jobDescription ?p \<noteq> [] \<and> userSkills ?p \<noteq> []"
    unfolding p by (simp add: example_page_def)
  have h2: "jobDescription (?p\<lparr>userSkills := []\<rparr>) = [] \<or> userSkills (?p\<lparr>userSkills := []\<rparr>) = []"
    by simp
  have a: "analysis ?p \<noteq> None"
    unfolding p by simp
  show ?thesis
    using h1 h2 a failed_request_clears_analysis [of ?p Threw]
      failed_request_clears_analysis [of "?p\<lparr>userSkills := []\<rparr>" Threw]
    by simp
qed

section \<open>Determinism\<close>

text \<open>
  Everything the page computes is computed from the stored analysis and the text of the
  job description.
\<close>

lemma computed_values_depend_on:
  assumes "analysis s = analysis t" and "jobDescription s = jobDescription t"
  shows "matchedSkills s = matchedSkills t"
    and "matchPercentage s = matchPercentage t"
    and "technicalMatchPercentage s = technicalMatchPercentage t"
    and "softMatchPercentage s = softMatchPercentage t"
    and "readinessScore s = readinessScore t"
    and "topSuggested s = topSuggested t"
    and "learningRoadmap s = learningRoadmap t"
proof -
  show m: "matchedSkills s = matchedSkills t"
    unfolding matchedSkills_def assms by (rule refl)
  show mp: "matchPercentage s = matchPercentage t"
    unfolding matchPercentage_def assms m by (rule refl)
  show tp: "technicalMatchPercentage s = technicalMatchPercentage t"
    unfolding technicalMatchPercentage_def assms m by (rule refl)
  show sp: "softMatchPercentage s = softMatchPercentage t"
    unfolding softMatchPercentage_def assms m by (rule refl)
  show "readinessScore s = readinessScore t"
    unfolding readinessScore_def assms mp tp sp by (rule refl)
  show "topSuggested s = topSuggested t"
    unfolding topSuggested_def assms by (rule refl)
  show "learningRoadmap s = learningRoadmap t"
    unfolding learningRoadmap_def assms by (rule refl)
qed

text \<open>
  Claim C8. Two runs of the analysis on the same required skills, the same skills text and
  the same job description give the same analysis, matched skills, percentages, readiness
  score, top missing skills and roadmap, whatever else differs between the two pages
  (the analysis, error, loading flag and toast from before) and whatever list of missing
  skills the two replies carried.
\<close>

theorem engine_deterministic:
  assumes "jobDescription s = jobDescription t" and "userSkills s = userSkills t"
    and "jobDescription s \<noteq> []" and "userSkills s \<noteq> []"
  shows "analysis (handleAnalyze s (Returned (WellFormed required m1))) =
           analysis (handleAnalyze t (Returned (WellFormed required m2)))
     \<and> matchedSkills (handleAnalyze s (Returned (WellFormed required m1))) =
           matchedSkills (handleAnalyze t (Returned (WellFormed required m2)))
     \<and> matchPercentage (handleAnalyze s (Returned (WellFormed required m1))) =
           matchPercentage (handleAnalyze t (Returned (WellFormed required m2)))
     \<and> technicalMatchPercentage (handleAnalyze s (Returned (WellFormed required m1))) =
           technicalMatchPercentage (handleAnalyze t (Returned (WellFormed required m2)))
     \<and> softMatchPercentage (handleAnalyze s (Returned (WellFormed required m1))) =
           softMatchPercentage (handleAnalyze t (Returned (WellFormed required m2)))
     \<and> readinessScore (handleAnalyze s (Returned (WellFormed required m1))) =
           readinessScore (handleAnalyze t (Returned (WellFormed required m2)))
     \<and> topSuggested (handleAnalyze s (Returned (WellFormed required m1))) =
           topSuggested (handleAnalyze t (Returned (WellFormed required m2)))
     \<and> learningRoadmap (handleAnalyze s (Returned (WellFormed required m1))) =
           learningRoadmap (handleAnalyze t (Returned (WellFormed required m2)))"
proof -
  let ?s = "handleAnalyze s (Returned (WellFormed required m1))"
  let ?t = "handleAnalyze t (Returned (WellFormed required m2))"
  have a: "analysis ?s = analysis ?t"
    using assms by (simp add: handleAnalyze_success)
  have j: "jobDescription ?s = jobDescription ?t"
    using assms by (simp add: handleAnalyze_success)
  show ?thesis
    using a computed_values_depend_on [OF a j] by simp
qed

theorem engine_deterministic_witness:
  "analysis (handleAnalyze example_page (Returned (WellFormed [''React'', ''SQL''] []))) =
     analysis (handleAnalyze
        (example_page\<lparr>analysis := Some (analyse [''Docker''] ''go''), error := Some ''old'',
           loading := True, toast := Some ''Reset done''\<rparr>)
        (Returned (WellFormed [''React'', ''SQL''] [''React''])))
   \<and> topSuggested (handleAnalyze example_page (Returned (WellFormed [''React'', ''SQL''] []))) =
     topSuggested (handleAnalyze
        (example_page\<lparr>analysis := Some (analyse [''Docker''] ''go''), error := Some ''old'',
           loading := True, toast := Some ''Reset done''\<rparr>)
        (Returned (WellFormed [''React'', ''SQL''] [''React''])))
   \<and> topSuggested (handleAnalyze example_page (Returned (WellFormed [''React'', ''SQL''] [])))
       = [''SQL'']"
proof -
  let ?t = "example_page\<lparr>analysis := Some (analyse [''Docker''] ''go''), error := Some ''old'',
           loading := True, toast := Some ''Reset done''\<rparr>"
  have 1: "jobDescription example_page = jobDescription ?t" by simp
  have 2: "userSkills example_page = userSkills ?t" by simp
  have 3: "jobDescription example_page \<noteq> []" by (simp add: example_page_def)
  have 4: "userSkills example_page \<noteq> []" by (simp add: example_page_def)
  have 5: "topSuggested (handleAnalyze example_page (Returned (WellFormed [''React'', ''SQL''] [])))
       = [''SQL'']"
    unfolding example_page_def by code_simp
  show ?thesis
    using engine_deterministic [OF 1 2 3 4, of "[''React'', ''SQL'']" "[]" "[''React'']"] 5
    by simp
qed


section \<open>The gateway\<close>

text \<open>
  What \<open>split_str\<close> and \<open>trim\<close> compute: the pieces hold no separator and give the string
  back when joined, and a trimmed string has no white space at either end.
\<close>

lemma split_str_not_Nil: "split_str c s \<noteq> []"
  by (induction s) simp_all

lemma split_str_pieces: "p \<in> set (split_str c s) \<Longrightarrow> c \<notin> set p"
proof (induction s arbitrary: p)
  case Nil
  then show ?case by simp
next
  case (Cons x xs)
  obtain q qs where q: "split_str c xs = q # qs"
    using split_str_not_Nil [of c xs] by (cases "split_str c xs") auto
  show ?case
  proof (cases "x = c")
    case True
    with Cons show ?thesis by auto
  next
    case False
    with Cons.prems q have "p = x # q \<or> p \<in> set qs"
      by simp
    with False Cons.IH q show ?thesis by auto
  qed
qed

lemma split_str_joined: "concat (map (\<lambda>p. p @ [c]) (split_str c s)) = s @ [c]"
proof (induction s)
  case Nil
  show ?case by simp
next
  case (Cons x xs)
  obtain q qs where q: "split_str c xs = q # qs"
    using split_str_not_Nil [of c xs] by (cases "split_str c xs") auto
  with Cons show ?case by auto
qed

lemma trim_ends:
  "trim s = [] \<or> (\<not> is_space (hd (trim s)) \<and> \<not> is_space (last (trim s)))"
proof (cases "trim s = []")
  case True
  then show ?thesis by simp
next
  case False
  let ?d = "dropWhile is_space s"
  let ?r = "dropWhile is_space (rev ?d)"
  from False have r: "?r \<noteq> []"
    by (simp add: trim_def)
  then have "\<not> is_space (hd ?r)"
    by (rule hd_dropWhile)
  then have l: "\<not> is_space (last (trim s))"
    using r by (simp add: trim_def last_rev)
  from r have d: "?d \<noteq> []"
    by (metis dropWhile.simps(1) rev_is_Nil_conv)
  then have hd: "\<not> is_space (hd ?d)"
    by (rule hd_dropWhile)
  have "\<exists>zs. rev ?d = zs @ ?r"
    by (metis takeWhile_dropWhile_id)
  then obtain zs where "rev ?d = zs @ ?r" ..
  then have "?d = rev ?r @ rev zs"
    by (metis rev_append rev_rev_ident)
  then have "hd ?d = hd (rev ?r)"
    using r by (metis hd_append2 rev_is_Nil_conv)
  with hd have "\<not> is_space (hd (trim s))"
    by (simp add: trim_def)
  with l show ?thesis by simp
qed

lemma filter_throwing_total:
  "filter_throwing (\<lambda>x. Inr (P x)) xs = Inr (filter P xs)"
  by (induction xs) simp_all

lemma userSkills_includes_array:
  "map_sum id Not (userSkills_includes (Some (JArr xs)) s) = Inr (JStr s \<notin> set xs)"
  by simp

lemma missing_of_array:
  "filter_throwing (\<lambda>s. map_sum id Not (userSkills_includes (Some (JArr xs)) s)) ex =
     Inr (filter (\<lambda>s. JStr s \<notin> set xs) ex)"
  by (simp only: userSkills_includes_array filter_throwing_total)

text \<open>
  Claim C7. When the body gives \<open>userSkills\<close> as an array of the strings \<open>us\<close> and the model
  returns a text, the gateway splits the text at the commas, trims the pieces and drops
  the empty ones; it answers with that list as \<open>requiredSkills\<close> and, as \<open>missingSkills\<close>,
  with its entries that are not elements of \<open>us\<close>, in their order, compared as they are;
  the same two lists are appended to the store.
\<close>

theorem gateway_extracts_and_filters:
  assumes "read_body body = Inr (jd, Some (JArr (map JStr us)))"
  shows "POST store body (ModelText text) =
           (Inr (Ok_json
                  (filter (\<lambda>s. s \<noteq> [])
                     (map trim (split_str CHR '','' (case text of None \<Rightarrow> [] | Some t \<Rightarrow> t))))
                  (filter (\<lambda>s. s \<notin> set us)
                     (filter (\<lambda>s. s \<noteq> [])
                        (map trim (split_str CHR '','' (case text of None \<Rightarrow> [] | Some t \<Rightarrow> t)))))),
            store @
              [\<lparr>ja_jobTitle = ''Unknown'', ja_description = jd,
                ja_requiredSkills =
                  filter (\<lambda>s. s \<noteq> [])
                    (map trim (split_str CHR '','' (case text of None \<Rightarrow> [] | Some t \<Rightarrow> t))),
                ja_missingSkills =
                  filter (\<lambda>s. s \<notin> set us)
                    (filter (\<lambda>s. s \<noteq> [])
                       (map trim (split_str CHR '','' (case text of None \<Rightarrow> [] | Some t \<Rightarrow> t))))\<rparr>])"
proof -
  have inj: "(JStr s \<notin> set (map JStr us)) = (s \<notin> set us)" for s
    by auto
  have m: "filter_throwing (\<lambda>s. map_sum id Not (userSkills_includes (Some (JArr (map JStr us))) s)) ex
             = Inr (filter (\<lambda>s. s \<notin> set us) ex)" for ex
    unfolding missing_of_array inj by (rule refl)
  have img: "(JStr s \<in> JStr ` set us) = (s \<in> set us)" for s
    by auto
  show ?thesis
    unfolding POST_def assms extract_skills_def Let_def m
    by (simp add: filter_throwing_total img)
qed

theorem gateway_extracts_and_filters_witness:
  "read_body (Parsed (JObj [(''jobDescription'', JStr ''We need React and SQL''),
                            (''userSkills'', JArr (map JStr [''react'', ''SQL '', ''Git'']))]))
     = Inr (Some (JStr ''We need React and SQL''), Some (JArr (map JStr [''react'', ''SQL '', ''Git''])))
   \<and> POST [] (Parsed (JObj [(''jobDescription'', JStr ''We need React and SQL''),
                            (''userSkills'', JArr (map JStr [''react'', ''SQL '', ''Git'']))]))
        (ModelText (Some ''React, SQL ,, Git,''))
     = (Inr (Ok_json [''React'', ''SQL'', ''Git''] [''React'', ''SQL'']),
        [\<lparr>ja_jobTitle = ''Unknown'', ja_description = Some (JStr ''We need React and SQL''),
          ja_requiredSkills = [''React'', ''SQL'', ''Git''],
          ja_missingSkills = [''React'', ''SQL'']\<rparr>])"
proof -
  have h: "read_body (Parsed (JObj [(''jobDescription'', JStr ''We need React and SQL''),
                            (''userSkills'', JArr (map JStr [''react'', ''SQL '', ''Git'']))]))
     = Inr (Some (JStr ''We need React and SQL''), Some (JArr (map JStr [''react'', ''SQL '', ''Git''])))"
    by (simp add: read_body_def)
  have e: "filter (\<lambda>s. s \<noteq> []) (map trim (split_str CHR '','' ''React, SQL ,, Git,''))
             = [''React'', ''SQL'', ''Git'']"
    by code_simp
  show ?thesis
    using h gateway_extracts_and_filters [OF h, of "[]" "Some ''React, SQL ,, Git,''"]
    unfolding option.case e by simp
qed

text \<open>
  Claim C10. A body that is not JSON, or is \<open>null\<close>, makes \<open>POST\<close> throw rather than
  answer. An answer \<open>{error}\<close> is always \<open>Failed to analyze job\<close> with status 500 and
  comes only once the body has been read. Whenever \<open>POST\<close> throws or answers with an
  error, the store is as before.
\<close>

theorem gateway_failures:
  "(body = NotJson \<or> body = Parsed JNull \<longrightarrow>
      (\<exists>e. POST store body model = (Inl e, store)))
   \<and> (fst (POST store body model) = Inr (Error_json msg code) \<longrightarrow>
        msg = ''Failed to analyze job'' \<and> code = 500
        \<and> snd (POST store body model) = store
        \<and> (\<exists>v. read_body body = Inr v))
   \<and> (fst (POST store body model) = Inl e \<longrightarrow>
        read_body body = Inl e \<and> snd (POST store body model) = store)
   \<and> (read_body body = Inr (jd, us) \<and> model = ModelThrows \<longrightarrow>
        POST store body model = (Inr (Error_json ''Failed to analyze job'' 500), store))"
proof -
  have 1: "body = NotJson \<or> body = Parsed JNull \<longrightarrow> (\<exists>e. POST store body model = (Inl e, store))"
    by (auto simp add: POST_def read_body_def)
  have 2: "fst (POST store body model) = Inr (Error_json msg code) \<longrightarrow>
        msg = ''Failed to analyze job'' \<and> code = 500
        \<and> snd (POST store body model) = store
        \<and> (\<exists>v. read_body body = Inr v)"
    by (auto simp add: POST_def Let_def split: sum.splits model_outcome.splits prod.splits)
  have 3: "fst (POST store body model) = Inl e \<longrightarrow>
        read_body body = Inl e \<and> snd (POST store body model) = store"
    by (auto simp add: POST_def Let_def split: sum.splits model_outcome.splits prod.splits)
  have 4: "read_body body = Inr (jd, us) \<and> model = ModelThrows \<longrightarrow>
        POST store body model = (Inr (Error_json ''Failed to analyze job'' 500), store)"
    by (auto simp add: POST_def)
  show ?thesis
    using 1 2 3 4 by blast
qed


theorem gateway_failures_witness:
  "(\<exists>e. POST [] NotJson (ModelText (Some ''React'')) = (Inl e, []))
   \<and> (\<exists>e. POST [] (Parsed JNull) (ModelText (Some ''React'')) = (Inl e, []))
   \<and> fst (POST [] (Parsed (JObj [(''jobDescription'', JStr ''We need React'')]))
           (ModelText (Some ''React'')))
       = Inr (Error_json ''Failed to analyze job'' 500)
   \<and> snd (POST [] (Parsed (JObj [(''jobDescription'', JStr ''We need React'')]))
           (ModelText (Some ''React''))) = []
   \<and> fst (POST [] NotJson ModelThrows) = Inl SyntaxError
   \<and> snd (POST [] NotJson ModelThrows) = []
   \<and> read_body (Parsed (JObj [(''jobDescription'', JStr ''We need React'')]))
       = Inr (Some (JStr ''We need React''), None)
   \<and> POST [] (Parsed (JObj [(''jobDescription'', JStr ''We need React'')])) ModelThrows
       = (Inr (Error_json ''Failed to analyze job'' 500), [])"
proof -
  let ?b = "Parsed (JObj [(''jobDescription'', JStr ''We need React'')])"
  have h2: "fst (POST [] ?b (ModelText (Some ''React'')))
              = Inr (Error_json ''Failed to analyze job'' 500)"
    by code_simp
  have h3: "fst (POST [] NotJson ModelThrows) = Inl SyntaxError"
    by code_simp
  have h4: "read_body ?b = Inr (Some (JStr ''We need React''), None)"
    by (simp add: read_body_def)
  have c1: "\<exists>e. POST [] NotJson (ModelText (Some ''React'')) = (Inl e, [])"
    using gateway_failures [of NotJson "[]" "ModelText (Some ''React'')"] by blast
  have c2: "\<exists>e. POST [] (Parsed JNull) (ModelText (Some ''React'')) = (Inl e, [])"
    using gateway_failures [of "Parsed JNull" "[]" "ModelText (Some ''React'')"] by blast
  have c3: "snd (POST [] ?b (ModelText (Some ''React''))) = []"
    using h2 gateway_failures [of ?b "[]" "ModelText (Some ''React'')" "''Failed to analyze job''" 500]
    by blast
  have c4: "snd (POST [] NotJson ModelThrows) = []"
    using h3 gateway_failures [of NotJson "[]" ModelThrows _ _ SyntaxError] by blast
  have c5: "POST [] ?b ModelThrows = (Inr (Error_json ''Failed to analyze job'' 500), [])"
    using h4 gateway_failures [of ?b "[]" ModelThrows _ _ _ "Some (JStr ''We need React'')" None]
    by blast
  show ?thesis
    using c1 c2 h2 c3 h3 c4 h4 c5 by blast
qed

section \<open>The ranking of the missing skills, proved\<close>

text \<open>
  Claim C2 as stated fails: where an importance phrase occurs twice, or where both
  phrases of one importance word occur, the code adds 5 once, the specification's
  wording 5 twice.
\<close>

theorem score_per_occurrence_counterexample:
  "skill_score ''Strong SQL skills, strong SQL tuning'' ''SQL'' = 9
   \<and> spec_skill_score ''Strong SQL skills, strong SQL tuning'' ''SQL'' = 14
   \<and> skill_score ''Proven SQL skills, proven with SQL Server'' ''SQL'' = 9
   \<and> spec_skill_score ''Proven SQL skills, proven with SQL Server'' ''SQL'' = 14"
  by code_simp

lemma foldl_add5:
  "foldl (\<lambda>score word. if P word then score + 5 else score) a ws
     = a + 5 * int (length (filter P ws))"
  by (induction ws arbitrary: a) simp_all

lemma skill_score_formula:
  "skill_score jd s =
     5 * int (length (filter
               (\<lambda>word. str_includes (toLowerCase jd) (word @ '' '' @ toLowerCase s)
                        \<or> str_includes (toLowerCase jd) (word @ '' with '' @ toLowerCase s))
               importanceWords))
     + 2 * int (count_matches (toLowerCase s) 0 (toLowerCase jd))"
  unfolding skill_score_def Let_def foldl_add5 by simp

lemma skill_score_nonneg: "0 \<le> skill_score jd s"
  unfolding skill_score_formula by simp

lemma insort_key_map:
  "insort_key f (g x) (map g ys) = map g (insort_key (\<lambda>y. f (g y)) x ys)"
  by (induction ys) simp_all

lemma sort_key_map:
  "sort_key f (map g xs) = map g (sort_key (\<lambda>y. f (g y)) xs)"
  by (induction xs) (simp_all add: insort_key_map)

lemma ranked_sorted_skills:
  "map skill (sort_key (\<lambda>r. - score r) (map (\<lambda>s. \<lparr>skill = s, score = sc s\<rparr>) ms))
     = sort_key (\<lambda>s. - sc s) ms"
  by (simp add: sort_key_map comp_def)

lemma padding_adds_nothing:
  assumes "mset srt = mset ms" and "length (take 5 srt) < 5"
  shows "filter (\<lambda>s. \<not> arr_includes (take 5 srt) s) ms = []"
proof -
  from assms(2) have "take 5 srt = srt"
    by simp
  moreover from assms(1) have "set srt = set ms"
    by (rule mset_eq_setD)
  ultimately show ?thesis
    by (simp add: arr_includes_def)
qed

lemma topSuggested_take:
  "topSuggested (st\<lparr>analysis := Some a\<rparr>) =
     take 5 (sort_key (\<lambda>s. - skill_score (jobDescription st) s) (missingSkills a))"
proof -
  let ?sorted = "sort_key (\<lambda>s. - skill_score (jobDescription st) s) (missingSkills a)"
  have ms: "mset ?sorted = mset (missingSkills a)"
    by simp
  have "topSuggested (st\<lparr>analysis := Some a\<rparr>) =
          (if length (take 5 ?sorted) < 5
           then take 5 ?sorted @ take (5 - length (take 5 ?sorted))
                  (filter (\<lambda>s. \<not> arr_includes (take 5 ?sorted) s) (missingSkills a))
           else take 5 ?sorted)"
    by (simp add: topSuggested_def Let_def take_map [symmetric] ranked_sorted_skills
          del: length_take)
  also have "\<dots> = take 5 ?sorted"
    using padding_adds_nothing [OF ms] by (simp del: length_take)
  finally show ?thesis .
qed

lemma stable_sort_split:
  fixes f :: "'a \<Rightarrow> int"
  assumes "\<And>x. f x \<le> 0"
  shows "sort_key f xs = sort_key f (filter (\<lambda>x. f x < 0) xs) @ filter (\<lambda>x. \<not> f x < 0) xs"
proof (rule properties_for_sort_key)
  let ?ys = "sort_key f (filter (\<lambda>x. f x < 0) xs) @ filter (\<lambda>x. \<not> f x < 0) xs"
  show "mset ?ys = mset xs"
    by simp
  show "sorted (map f ?ys)"
  proof -
    have z: "map f (filter (\<lambda>x. \<not> f x < 0) xs) = replicate (length (filter (\<lambda>x. \<not> f x < 0) xs)) 0"
      using assms by (induction xs) (auto simp add: order.antisym not_less)
    have "sorted (map f (filter (\<lambda>x. \<not> f x < 0) xs))"
      unfolding z by (simp add: sorted_replicate)
    moreover have "sorted (map f (sort_key f (filter (\<lambda>x. f x < 0) xs)))"
      by (rule sorted_sort_key)
    ultimately show ?thesis
      using assms by (auto simp add: sorted_append)
  qed
  fix k
  assume "k \<in> set ?ys"
  have st: "filter (\<lambda>x. f k = f x) (sort_key f zs) = filter (\<lambda>x. f k = f x) zs" for zs
    using sort_key_stable [of f "f k" zs] by (simp add: eq_commute)
  show "filter (\<lambda>x. f k = f x) ?ys = filter (\<lambda>x. f k = f x) xs"
  proof (cases "f k < 0")
    case True
    then have 1: "filter (\<lambda>x. f k = f x) (filter (\<lambda>x. \<not> f x < 0) xs) = []"
      by (auto simp add: filter_empty_conv)
    from True have 2: "filter (\<lambda>x. f k = f x) (filter (\<lambda>x. f x < 0) xs) = filter (\<lambda>x. f k = f x) xs"
      unfolding filter_filter by (intro filter_cong) auto
    show ?thesis
      by (simp only: filter_append st 1 2 append_Nil2)
  next
    case False
    then have 1: "filter (\<lambda>x. f k = f x) (filter (\<lambda>x. f x < 0) xs) = []"
      by (auto simp add: filter_empty_conv)
    from False have 2: "filter (\<lambda>x. f k = f x) (filter (\<lambda>x. \<not> f x < 0) xs) = filter (\<lambda>x. f k = f x) xs"
      unfolding filter_filter by (intro filter_cong) auto
    show ?thesis
      by (simp only: filter_append st 1 2 append_Nil)
  qed
qed


text \<open>
  Claim C2, amended. The score of a missing skill is 5 for each importance word for which
  the word followed by the skill, or by \<open>with\<close> and the skill, occurs in the lower-cased
  job description (however often), plus 2 for each match of the lower-cased skill there.
  The top missing skills are the first five of the missing skills put in the order of
  falling score, skills of equal score staying in their order; so they are the skills
  with a score above zero by falling score, followed by the other missing skills in their
  original order, cut after five.
\<close>

theorem top_missing_ranking:
  "skill_score jd s =
     5 * int (length (filter
               (\<lambda>word. str_includes (toLowerCase jd) (word @ '' '' @ toLowerCase s)
                        \<or> str_includes (toLowerCase jd) (word @ '' with '' @ toLowerCase s))
               importanceWords))
     + 2 * int (count_matches (toLowerCase s) 0 (toLowerCase jd))
   \<and> topSuggested (st\<lparr>analysis := Some a\<rparr>) =
       take 5 (sort_key (\<lambda>s. - skill_score (jobDescription st) s) (missingSkills a))
   \<and> topSuggested (st\<lparr>analysis := Some a\<rparr>) =
       take 5 (sort_key (\<lambda>s. - skill_score (jobDescription st) s)
                 (filter (\<lambda>s. 0 < skill_score (jobDescription st) s) (missingSkills a))
               @ filter (\<lambda>s. \<not> 0 < skill_score (jobDescription st) s) (missingSkills a))"
proof -
  let ?f = "\<lambda>s. - skill_score (jobDescription st) s"
  have "?f x \<le> 0" for x
    by (simp add: skill_score_nonneg)
  then have "sort_key ?f (missingSkills a) =
      sort_key ?f (filter (\<lambda>x. ?f x < 0) (missingSkills a))
      @ filter (\<lambda>x. \<not> ?f x < 0) (missingSkills a)"
    by (rule stable_sort_split)
  then have split: "sort_key ?f (missingSkills a) =
      sort_key ?f (filter (\<lambda>s. 0 < skill_score (jobDescription st) s) (missingSkills a))
      @ filter (\<lambda>s. \<not> 0 < skill_score (jobDescription st) s) (missingSkills a)"
    by simp
  have t: "topSuggested (st\<lparr>analysis := Some a\<rparr>) = take 5 (sort_key ?f (missingSkills a))"
    by (rule topSuggested_take)
  have t': "topSuggested (st\<lparr>analysis := Some a\<rparr>) =
       take 5 (sort_key ?f
                 (filter (\<lambda>s. 0 < skill_score (jobDescription st) s) (missingSkills a))
               @ filter (\<lambda>s. \<not> 0 < skill_score (jobDescription st) s) (missingSkills a))"
    using t split by (rule trans [OF _ arg_cong])
  show ?thesis
    using skill_score_formula [of jd s] t t' by blast
qed

text \<open>The example of the specification: SQL outranks a skill the description does not name.\<close>

lemma example_ranking:
  "skill_score ''Must have strong SQL experience'' ''SQL'' = 7"
  "skill_score ''Must have strong SQL experience'' ''Communication'' = 0"
  "topSuggested
     \<lparr>jobDescription = ''Must have strong SQL experience'', userSkills = ''react'',
      analysis = Some \<lparr>requiredSkills = [''Communication'', ''SQL''],
                       missingSkills = [''Communication'', ''SQL''],
                       technicalSkills = [''SQL''], softSkills = [''Communication'']\<rparr>,
      loading = False, error = None, toast = None\<rparr>
   = [''SQL'', ''Communication'']"
  by code_simp+


end
